theory Spec2Isabelle
  imports Complex_Main "HOL-Library.Multiset"
begin

section \<open>Python values\<close>

text \<open>
  A Python \<open>str\<close> is a \<open>string\<close>; the inputs are taken to be ASCII (the one non-ASCII
  literal of the source, the em dash of \<open>build_srt\<close>, is written as its UTF-8 bytes).
  A Python \<open>int\<close> is an \<open>int\<close>.

  A Python \<open>float\<close> is the real number it denotes, or NaN: \<open>float("nan")\<close> and the
  JSON literal \<open>NaN\<close> are accepted by the program, and every comparison with NaN is
  false, which is what \<open>list.sort\<close> and \<open>max\<close> then see. Rounding to 53 bits and the
  infinities are outside the model.

  The values of a telemetry record are what \<open>json.loads\<close> produces.
\<close>

datatype pyfloat = Fin real | NaN

datatype json =
    JNull
  | JBool bool
  | JInt int
  | JFloat pyfloat
  | JStr string
  | JArr "json list"
  | JObj "(string \<times> json) list"

text \<open>
  The exceptions the code can raise. The three errors the source raises itself are all
  \<open>ValueError\<close>s, told apart by their message.
\<close>

datatype error =
    ValueError string
  | TypeError
  | AttributeError
  | OverflowError

abbreviation MissingTimestampField :: error where
  "MissingTimestampField \<equiv>
     ValueError (''Each telemetry entry must include a '' @ [CHR 0x27] @ ''timestamp''
                 @ [CHR 0x27] @ '' field'')"

abbreviation UnsupportedTimestampFormat :: "string \<Rightarrow> error" where
  "UnsupportedTimestampFormat v \<equiv> ValueError (''Unsupported timestamp format: '' @ v)"

abbreviation MixedTimestampFormats :: error where
  "MixedTimestampFormats \<equiv>
     ValueError ''Mixing absolute datetime strings with raw numeric seconds is not supported''"

text \<open>
  \<open>datetime.datetime\<close>: the calendar fields and the UTC offset of the attached
  \<open>timezone\<close> in microseconds (\<open>None\<close> for a naive value).
\<close>

record datetime =
  year :: nat
  month :: nat
  day :: nat
  hour :: nat
  minute :: nat
  second :: nat
  microsecond :: nat
  tzinfo :: "int option"

datatype timestamp = Numeric pyfloat | Absolute datetime

record TelemetryEntry =
  offset_seconds :: pyfloat
  display_timestamp :: string
  speed :: "pyfloat option"
  latitude :: "pyfloat option"
  longitude :: "pyfloat option"

text \<open>
  The functions of the Python runtime that read or print text and whose full grammar is
  not part of this program are parameters of the model: \<open>float(str)\<close>,
  \<open>datetime.fromisoformat\<close>, \<open>datetime.strptime\<close> (string, then format) and \<open>str(float)\<close>.
  \<open>None\<close> stands for the \<open>ValueError\<close> they raise. The last parameter is what
  \<open>list.sort\<close> does to a list of entries where the comparisons of the keys decide
  nothing: a NaN among the keys and some key less than the one before it (see
  \<open>list_sort\<close> below).
\<close>

record pylib =
  float_of_str :: "string \<Rightarrow> pyfloat option"
  fromisoformat :: "string \<Rightarrow> datetime option"
  strptime :: "string \<Rightarrow> string \<Rightarrow> datetime option"
  float_str :: "pyfloat \<Rightarrow> string"
  sort_nan :: "TelemetryEntry list \<Rightarrow> TelemetryEntry list"

section \<open>Strings and numbers\<close>

definition is_space :: "char \<Rightarrow> bool" where
  \<comment> \<open>\<open>str.isspace\<close> on ASCII: TAB..CR, FS..US and the space\<close>
  "is_space c = (let n = (of_char c :: nat) in (9 \<le> n \<and> n \<le> 13) \<or> (28 \<le> n \<and> n \<le> 32))"

definition py_strip :: "string \<Rightarrow> string" where
  "py_strip s = rev (dropWhile is_space (rev (dropWhile is_space s)))"

definition endswith :: "string \<Rightarrow> char \<Rightarrow> bool" where
  "endswith s c = (s \<noteq> [] \<and> last s = c)"

definition nl :: string where
  "nl = [CHR 0x0A]"

fun join :: "string \<Rightarrow> string list \<Rightarrow> string" where
  "join sep [] = []"
| "join sep [x] = x"
| "join sep (x # y # ys) = x @ sep @ join sep (y # ys)"

definition digit_char :: "nat \<Rightarrow> char" where
  "digit_char n = ''0123456789'' ! (n mod 10)"

fun dec :: "nat \<Rightarrow> string" where
  "dec n = (if n < 10 then [digit_char n] else dec (n div 10) @ [digit_char (n mod 10)])"

declare dec.simps [simp del]

definition zpad :: "nat \<Rightarrow> string \<Rightarrow> string" where
  "zpad w s = replicate (w - length s) (CHR ''0'') @ s"

definition fmt_int :: "nat \<Rightarrow> int \<Rightarrow> string" where
  \<comment> \<open>\<open>f"{i:0w}"\<close>: sign-aware zero padding to width \<open>w\<close>\<close>
  "fmt_int w i = (if i < 0 then ''-'' @ zpad (w - 1) (dec (nat (- i))) else zpad w (dec (nat i)))"

definition py_round :: "real \<Rightarrow> int" where
  \<comment> \<open>\<open>round(x)\<close>: to the nearest integer, a tie to the even one\<close>
  "py_round x =
     (let f = \<lfloor>x\<rfloor>; r = x - of_int f
      in if r < 1 / 2 then f else if 1 / 2 < r then f + 1 else if even f then f else f + 1)"

definition py_divmod :: "real \<Rightarrow> real \<Rightarrow> real \<times> real" where
  "py_divmod x y = (let q = of_int \<lfloor>x / y\<rfloor> in (q, x - q * y))"

definition format_f :: "nat \<Rightarrow> pyfloat \<Rightarrow> string" where
  \<comment> \<open>\<open>f"{v:.df}"\<close> for \<open>d > 0\<close>\<close>
  "format_f d v =
     (case v of
        NaN \<Rightarrow> ''nan''
      | Fin x \<Rightarrow>
          (let n = nat (py_round (\<bar>x\<bar> * 10 ^ d))
           in (if x < 0 then ''-'' else '''') @ dec (n div 10 ^ d) @ ''.''
              @ zpad d (dec (n mod 10 ^ d))))"

definition py_lt :: "pyfloat \<Rightarrow> pyfloat \<Rightarrow> bool" where
  \<comment> \<open>\<open>a < b\<close> on floats\<close>
  "py_lt a b = (case (a, b) of (Fin x, Fin y) \<Rightarrow> x < y | _ \<Rightarrow> False)"

definition py_le :: "pyfloat \<Rightarrow> pyfloat \<Rightarrow> bool" where
  \<comment> \<open>\<open>a <= b\<close> on floats\<close>
  "py_le a b = (case (a, b) of (Fin x, Fin y) \<Rightarrow> x \<le> y | _ \<Rightarrow> False)"

definition py_add :: "pyfloat \<Rightarrow> pyfloat \<Rightarrow> pyfloat" where
  "py_add a b = (case (a, b) of (Fin x, Fin y) \<Rightarrow> Fin (x + y) | _ \<Rightarrow> NaN)"

definition max0 :: "pyfloat \<Rightarrow> real" where
  \<comment> \<open>\<open>max(0, v)\<close>: \<open>v\<close> when \<open>v > 0\<close>, else the first argument\<close>
  "max0 v = (if py_lt (Fin 0) v then (case v of Fin x \<Rightarrow> x | NaN \<Rightarrow> 0) else 0)"

definition float_of_int :: "int \<Rightarrow> error + pyfloat" where
  \<comment> \<open>\<open>float(n)\<close>: an int that rounds to \<open>2 ^ 1024\<close> or beyond raises OverflowError\<close>
  "float_of_int n = (if 2 ^ 1024 - 2 ^ 970 \<le> \<bar>n\<bar> then Inl OverflowError else Inr (Fin (of_int n)))"

fun py_float :: "pylib \<Rightarrow> json \<Rightarrow> error + pyfloat" where
  "py_float L (JBool b) = Inr (Fin (if b then 1 else 0))"
| "py_float L (JInt n) = float_of_int n"
| "py_float L (JFloat x) = Inr x"
| "py_float L (JStr s) =
     (case float_of_str L s of
        None \<Rightarrow> Inl (ValueError (''could not convert string to float: '' @ s))
      | Some x \<Rightarrow> Inr x)"
| "py_float L JNull = Inl TypeError"
| "py_float L (JArr xs) = Inl TypeError"
| "py_float L (JObj kvs) = Inl TypeError"

section \<open>Operations of \<open>datetime\<close>\<close>

definition is_leap :: "nat \<Rightarrow> bool" where
  "is_leap y = (y mod 4 = 0 \<and> (y mod 100 \<noteq> 0 \<or> y mod 400 = 0))"

definition days_before_year :: "nat \<Rightarrow> nat" where
  "days_before_year y = (let z = y - 1 in z * 365 + z div 4 - z div 100 + z div 400)"

definition days_in_month :: "nat \<Rightarrow> nat \<Rightarrow> nat" where
  "days_in_month y m =
     (if m = 2 \<and> is_leap y then 29 else [0, 31, 28, 31, 30, 31, 30, 31, 31, 30, 31, 30, 31] ! m)"

definition days_before_month :: "nat \<Rightarrow> nat \<Rightarrow> nat" where
  "days_before_month y m =
     [0, 0, 31, 59, 90, 120, 151, 181, 212, 243, 273, 304, 334] ! m
       + (if 2 < m \<and> is_leap y then 1 else 0)"

definition ymd2ord :: "nat \<Rightarrow> nat \<Rightarrow> nat \<Rightarrow> nat" where
  "ymd2ord y m d = days_before_year y + days_before_month y m + d"

definition wall :: "datetime \<Rightarrow> int" where
  \<comment> \<open>the microseconds from 0001-01-01T00:00:00 to the wall-clock fields\<close>
  "wall t =
     (((int (ymd2ord (year t) (month t) (day t)) - 1) * 24 + int (hour t)) * 60 + int (minute t))
        * 60000000 + int (second t) * 1000000 + int (microsecond t)"

text \<open>
  Comparison and subtraction: two naive values by their wall-clock fields, two aware
  values by their UTC instants, one of each raises TypeError. A \<open>timedelta\<close> is its
  number of microseconds.
\<close>

definition dt_lt :: "datetime \<Rightarrow> datetime \<Rightarrow> error + bool" where
  "dt_lt a b =
     (case (tzinfo a, tzinfo b) of
        (None, None) \<Rightarrow> Inr (wall a < wall b)
      | (Some x, Some y) \<Rightarrow> Inr (wall a - x < wall b - y)
      | _ \<Rightarrow> Inl TypeError)"

definition dt_sub :: "datetime \<Rightarrow> datetime \<Rightarrow> error + int" where
  "dt_sub a b =
     (case (tzinfo a, tzinfo b) of
        (None, None) \<Rightarrow> Inr (wall a - wall b)
      | (Some x, Some y) \<Rightarrow> Inr ((wall a - x) - (wall b - y))
      | _ \<Rightarrow> Inl TypeError)"

definition total_seconds :: "int \<Rightarrow> pyfloat" where
  "total_seconds td = Fin (of_int td / 1000000)"

fun min_from :: "datetime \<Rightarrow> datetime list \<Rightarrow> error + datetime" where
  "min_from best [] = Inr best"
| "min_from best (x # xs) =
     (case dt_lt x best of
        Inl e \<Rightarrow> Inl e
      | Inr b \<Rightarrow> min_from (if b then x else best) xs)"

definition py_min :: "datetime list \<Rightarrow> error + datetime" where
  \<comment> \<open>\<open>min\<close> of a sequence: the first of the least values\<close>
  "py_min xs =
     (case xs of
        [] \<Rightarrow> Inl (ValueError ''min() arg is an empty sequence'')
      | x # rest \<Rightarrow> min_from x rest)"

definition format_offset :: "int option \<Rightarrow> string" where
  "format_offset off =
     (case off of
        None \<Rightarrow> ''''
      | Some v \<Rightarrow>
          (let a = nat \<bar>v\<bar>;
               hh = a div 3600000000;
               mm = (a mod 3600000000) div 60000000;
               ss = (a mod 60000000) div 1000000;
               us = a mod 1000000
           in (if v < 0 then ''-'' else ''+'') @ zpad 2 (dec hh) @ '':'' @ zpad 2 (dec mm)
              @ (if ss \<noteq> 0 \<or> us \<noteq> 0 then '':'' @ zpad 2 (dec ss) else '''')
              @ (if us \<noteq> 0 then ''.'' @ zpad 6 (dec us) else '''')))"

definition isoformat :: "datetime \<Rightarrow> string" where
  "isoformat t =
     zpad 4 (dec (year t)) @ ''-'' @ zpad 2 (dec (month t)) @ ''-'' @ zpad 2 (dec (day t))
     @ ''T'' @ zpad 2 (dec (hour t)) @ '':'' @ zpad 2 (dec (minute t)) @ '':''
     @ zpad 2 (dec (second t))
     @ (if microsecond t \<noteq> 0 then ''.'' @ zpad 6 (dec (microsecond t)) else '''')
     @ format_offset (tzinfo t)"

section \<open>The program\<close>

subsection \<open>\<open>parse_timestamp\<close>\<close>

definition iso_candidate :: "string \<Rightarrow> string" where
  "iso_candidate v = (if endswith v (CHR ''Z'') then butlast v @ ''+00:00'' else v)"

fun parse_timestamp :: "pylib \<Rightarrow> json \<Rightarrow> error + timestamp" where
  "parse_timestamp L (JBool b) = Inr (Numeric (Fin (if b then 1 else 0)))"
| "parse_timestamp L (JInt n) =
     (case float_of_int n of Inl e \<Rightarrow> Inl e | Inr x \<Rightarrow> Inr (Numeric x))"
| "parse_timestamp L (JFloat x) = Inr (Numeric x)"
| "parse_timestamp L (JStr s) =
     (let v = py_strip s in
      case float_of_str L v of
        Some numeric \<Rightarrow> Inr (Numeric numeric)
      | None \<Rightarrow>
     (case fromisoformat L (iso_candidate v) of
        Some t \<Rightarrow> Inr (Absolute t)
      | None \<Rightarrow>
     (case strptime L v ''%H:%M:%S.%f'' of
        Some t \<Rightarrow> Inr (Absolute t)
      | None \<Rightarrow>
     (case strptime L v ''%H:%M:%S'' of
        Some t \<Rightarrow> Inr (Absolute t)
      | None \<Rightarrow> Inl (UnsupportedTimestampFormat v)))))"
| "parse_timestamp L JNull = Inl AttributeError"
| "parse_timestamp L (JArr xs) = Inl AttributeError"
| "parse_timestamp L (JObj kvs) = Inl AttributeError"

subsection \<open>\<open>_coerce_optional_float\<close>\<close>

text \<open>
  The argument is what \<open>data.get(key)\<close> returns: Python's \<open>None\<close> for a missing key
  as for a JSON null. Only TypeError and ValueError are caught.
\<close>

definition coerce_optional_float :: "pylib \<Rightarrow> json option \<Rightarrow> error + pyfloat option" where
  "coerce_optional_float L v =
     (case v of
        None \<Rightarrow> Inr None
      | Some JNull \<Rightarrow> Inr None
      | Some j \<Rightarrow>
          (case py_float L j of
             Inr x \<Rightarrow> Inr (Some x)
           | Inl TypeError \<Rightarrow> Inr None
           | Inl (ValueError m) \<Rightarrow> Inr None
           | Inl e \<Rightarrow> Inl e))"

subsection \<open>\<open>normalize_entries\<close>\<close>

type_synonym record_dict = "string \<rightharpoonup> json"

text \<open>The first loop (lines 84 to 87): the key check and the parse, record by record.\<close>

fun parse_entries :: "pylib \<Rightarrow> record_dict list \<Rightarrow> error + (timestamp \<times> record_dict) list" where
  "parse_entries L [] = Inr []"
| "parse_entries L (entry # rest) =
     (case entry ''timestamp'' of
        None \<Rightarrow> Inl MissingTimestampField
      | Some v \<Rightarrow>
          (case parse_timestamp L v of
             Inl e \<Rightarrow> Inl e
           | Inr ts \<Rightarrow>
               (case parse_entries L rest of
                  Inl e \<Rightarrow> Inl e
                | Inr ps \<Rightarrow> Inr ((ts, entry) # ps))))"

definition is_datetime :: "timestamp \<Rightarrow> bool" where
  "is_datetime ts = (case ts of Absolute t \<Rightarrow> True | Numeric x \<Rightarrow> False)"

definition datetime_of :: "timestamp \<Rightarrow> datetime option" where
  \<comment> \<open>\<open>ts if isinstance(ts, dt.datetime) else None\<close>\<close>
  "datetime_of ts = (case ts of Absolute t \<Rightarrow> Some t | Numeric x \<Rightarrow> None)"

definition numeric_of :: "timestamp \<Rightarrow> error + pyfloat" where
  \<comment> \<open>\<open>float(ts)\<close>; a datetime has no \<open>__float__\<close>\<close>
  "numeric_of ts = (case ts of Numeric x \<Rightarrow> Inr x | Absolute t \<Rightarrow> Inl TypeError)"

text \<open>
  The construction of one entry: the keyword arguments are evaluated in the order
  written, so the coercion of \<open>speed\<close> comes first.
\<close>

definition make_entry :: "pylib \<Rightarrow> pyfloat \<Rightarrow> string \<Rightarrow> record_dict \<Rightarrow> error + TelemetryEntry" where
  "make_entry L off disp data =
     (case coerce_optional_float L (data ''speed'') of
        Inl e \<Rightarrow> Inl e
      | Inr sp \<Rightarrow>
     (case coerce_optional_float L (data ''latitude'') of
        Inl e \<Rightarrow> Inl e
      | Inr la \<Rightarrow>
     (case coerce_optional_float L (data ''longitude'') of
        Inl e \<Rightarrow> Inl e
      | Inr lo \<Rightarrow>
          Inr \<lparr>offset_seconds = off, display_timestamp = disp,
               speed = sp, latitude = la, longitude = lo\<rparr>)))"

fun absolute_offsets ::
  "pylib \<Rightarrow> datetime \<Rightarrow> (datetime \<times> record_dict) list \<Rightarrow> error + TelemetryEntry list" where
  "absolute_offsets L start_time [] = Inr []"
| "absolute_offsets L start_time ((ts, data) # rest) =
     (case dt_sub ts start_time of
        Inl e \<Rightarrow> Inl e
      | Inr td \<Rightarrow>
     (case make_entry L (total_seconds td) (isoformat ts) data of
        Inl e \<Rightarrow> Inl e
      | Inr entry \<Rightarrow>
     (case absolute_offsets L start_time rest of
        Inl e \<Rightarrow> Inl e
      | Inr es \<Rightarrow> Inr (entry # es))))"

fun numeric_offsets ::
  "pylib \<Rightarrow> (timestamp \<times> record_dict) list \<Rightarrow> error + TelemetryEntry list" where
  "numeric_offsets L [] = Inr []"
| "numeric_offsets L ((ts, data) # rest) =
     (case numeric_of ts of
        Inl e \<Rightarrow> Inl e
      | Inr numeric \<Rightarrow>
     (case make_entry L numeric (format_f 3 numeric @ ''s'') data of
        Inl e \<Rightarrow> Inl e
      | Inr entry \<Rightarrow>
     (case numeric_offsets L rest of
        Inl e \<Rightarrow> Inl e
      | Inr es \<Rightarrow> Inr (entry # es))))"

fun datetime_entries :: "(timestamp \<times> record_dict) list \<Rightarrow> (datetime \<times> record_dict) list option" where
  \<comment> \<open>lines 93 to 95: \<open>None\<close> when some timestamp is not a datetime\<close>
  "datetime_entries [] = Some []"
| "datetime_entries ((ts, data) # rest) =
     (case datetime_of ts of
        None \<Rightarrow> None
      | Some t \<Rightarrow> map_option ((#) (t, data)) (datetime_entries rest))"

text \<open>The list \<open>offsets\<close> as it is before the sort of line 121.\<close>

definition build_offsets :: "pylib \<Rightarrow> record_dict list \<Rightarrow> error + TelemetryEntry list" where
  "build_offsets L entries =
     (case parse_entries L entries of
        Inl e \<Rightarrow> Inl e
      | Inr parsed \<Rightarrow>
          if list_ex (\<lambda>p. is_datetime (fst p)) parsed then
            (case datetime_entries parsed of
               None \<Rightarrow> Inl MixedTimestampFormats
             | Some dts \<Rightarrow>
                 (case py_min (map fst dts) of
                    Inl e \<Rightarrow> Inl e
                  | Inr start_time \<Rightarrow> absolute_offsets L start_time dts))
          else numeric_offsets L parsed)"

text \<open>
  \<open>offsets.sort(key=lambda entry: entry.offset_seconds)\<close>. \<open>list.sort\<close> is a stable sort
  when \<open><\<close> orders the keys totally, which it does when none is NaN. With a NaN among
  the keys the comparisons are inconsistent and the result depends on the run detection
  and the merges of the CPython version, but for one case: where no key is \<open><\<close> the key
  before it, the list is one ascending run and is left as it is. The remaining case
  is the parameter \<open>sort_nan\<close> of the runtime.
\<close>

fun real_of :: "pyfloat \<Rightarrow> real" where
  "real_of (Fin x) = x"
| "real_of NaN = 0"

fun descent_free :: "pyfloat list \<Rightarrow> bool" where
  "descent_free (a # b # r) = (\<not> py_lt b a \<and> descent_free (b # r))"
| "descent_free r = True"

definition list_sort :: "pylib \<Rightarrow> TelemetryEntry list \<Rightarrow> TelemetryEntry list" where
  "list_sort L xs =
     (let keys = map offset_seconds xs
      in if NaN \<notin> set keys then sort_key (real_of \<circ> offset_seconds) xs
         else if descent_free keys then xs
         else sort_nan L xs)"

definition normalize_entries :: "pylib \<Rightarrow> record_dict list \<Rightarrow> error + TelemetryEntry list" where
  "normalize_entries L entries =
     (case build_offsets L entries of
        Inl e \<Rightarrow> Inl e
      | Inr offsets \<Rightarrow> Inr (list_sort L offsets))"

subsection \<open>\<open>srt_timestamp\<close> and \<open>build_srt\<close>\<close>

definition srt_timestamp :: "pyfloat \<Rightarrow> string" where
  "srt_timestamp seconds =
     (let s = max0 seconds;
          (hours, remainder) = py_divmod s 3600;
          (minutes, remainder') = py_divmod remainder 60;
          (secs, millis) = py_divmod remainder' 1
      in fmt_int 2 \<lfloor>hours\<rfloor> @ '':'' @ fmt_int 2 \<lfloor>minutes\<rfloor> @ '':'' @ fmt_int 2 \<lfloor>secs\<rfloor>
         @ '','' @ fmt_int 3 (py_round (millis * 1000)))"

definition end_time :: "TelemetryEntry list \<Rightarrow> nat \<Rightarrow> TelemetryEntry \<Rightarrow> pyfloat" where
  "end_time entries idx entry =
     (if idx < length entries then offset_seconds (entries ! idx)
      else py_add (offset_seconds entry) (Fin 1))"

definition em_dash :: string where
  "em_dash = [CHR 0xE2, CHR 0x80, CHR 0x94]"

definition caption_lines :: "pylib \<Rightarrow> string \<Rightarrow> TelemetryEntry \<Rightarrow> string list" where
  "caption_lines L speed_unit entry =
     [''Time: '' @ display_timestamp entry]
     @ (case speed entry of
          None \<Rightarrow> []
        | Some v \<Rightarrow> [''Speed: '' @ format_f 1 v @ '' '' @ speed_unit])
     @ (if latitude entry \<noteq> None \<or> longitude entry \<noteq> None
        then [''Lat/Lon: ''
              @ (case latitude entry of None \<Rightarrow> em_dash | Some v \<Rightarrow> float_str L v)
              @ '', ''
              @ (case longitude entry of None \<Rightarrow> em_dash | Some v \<Rightarrow> float_str L v)]
        else [])"

definition caption_block :: "pylib \<Rightarrow> string \<Rightarrow> TelemetryEntry list \<Rightarrow> nat \<Rightarrow> TelemetryEntry \<Rightarrow> string list" where
  "caption_block L speed_unit entries idx entry =
     [dec idx,
      srt_timestamp (offset_seconds entry) @ '' --> ''
        @ srt_timestamp (end_time entries idx entry),
      join nl (caption_lines L speed_unit entry),
      '''']"

definition srt_lines :: "pylib \<Rightarrow> string \<Rightarrow> TelemetryEntry list \<Rightarrow> string list" where
  "srt_lines L speed_unit entries =
     concat (map (\<lambda>(idx, entry). caption_block L speed_unit entries idx entry)
                 (zip [1 ..< Suc (length entries)] entries))"

definition build_srt :: "pylib \<Rightarrow> string \<Rightarrow> TelemetryEntry list \<Rightarrow> string" where
  "build_srt L speed_unit entries = py_strip (join nl (srt_lines L speed_unit entries)) @ nl"

section \<open>A reference runtime for the examples\<close>

text \<open>
  The general theorems below hold for every \<open>pylib\<close>. The examples of the specification
  need the runtime at concrete strings; \<open>pyref\<close> follows CPython on these grammars and
  rejects everything else:
  \<^item> \<open>float\<close>: \<open>[+-](digits[.digits] | .digits)[(e|E)[+-]digits]\<close> and \<open>[+-]nan\<close> in any
    case of the letters, surrounding whitespace ignored;
  \<^item> \<open>fromisoformat\<close>: \<open>YYYY-MM-DD[*HH:MM[:SS[.fff[fff]]][(+|-)HH:MM]]\<close>;
  \<^item> \<open>strptime\<close>: the two formats of the source, fields of one or two digits, a fraction of
    one to six digits, on the date 1900-01-01;
  \<^item> \<open>str(float)\<close>: the decimal expansion, for a number that has a short one;
  \<^item> \<open>sort_nan\<close>: an insertion sort by \<open><\<close>, one of the behaviours a CPython version may
    show there; no theorem depends on it.
\<close>

definition is_digit :: "char \<Rightarrow> bool" where
  "is_digit c = (let n = (of_char c :: nat) in 48 \<le> n \<and> n \<le> 57)"

definition digits_val :: "string \<Rightarrow> nat" where
  "digits_val ds = foldl (\<lambda>a c. 10 * a + (of_char c - 48)) 0 ds"

definition split_sign :: "string \<Rightarrow> bool \<times> string" where
  "split_sign s =
     (case s of
        [] \<Rightarrow> (False, [])
      | c # r \<Rightarrow> if c = CHR ''-'' then (True, r) else if c = CHR ''+'' then (False, r) else (False, s))"

definition all_digits :: "string \<Rightarrow> bool" where
  "all_digits ds = (ds \<noteq> [] \<and> list_all is_digit ds)"

definition ref_exponent :: "string \<Rightarrow> int option" where
  "ref_exponent r =
     (case r of
        [] \<Rightarrow> Some 0
      | c # r' \<Rightarrow>
          if c = CHR ''e'' \<or> c = CHR ''E'' then
            (let (neg, ds) = split_sign r'
             in if all_digits ds then Some (if neg then - int (digits_val ds) else int (digits_val ds))
                else None)
          else None)"

definition is_nan_word :: "string \<Rightarrow> bool" where
  "is_nan_word w = list_all2 (\<lambda>c l. c = l \<or> (of_char c :: nat) + 32 = of_char l) w ''nan''"

definition ref_float :: "string \<Rightarrow> pyfloat option" where
  "ref_float s =
     (let (neg, body) = split_sign (py_strip s);
          ip = takeWhile is_digit body;
          r1 = dropWhile is_digit body;
          dot = (r1 \<noteq> [] \<and> hd r1 = CHR ''.'');
          fp = (if dot then takeWhile is_digit (tl r1) else []);
          r2 = (if dot then dropWhile is_digit (tl r1) else r1)
      in if is_nan_word body then Some NaN
         else if ip = [] \<and> fp = [] then None
         else (case ref_exponent r2 of
                 None \<Rightarrow> None
               | Some e \<Rightarrow>
                   (let m = real (digits_val (ip @ fp)) / 10 ^ length fp;
                        v = (if e < 0 then m / 10 ^ nat (- e) else m * 10 ^ nat e)
                    in Some (Fin (if neg then - v else v)))))"

fun num2 :: "string \<Rightarrow> (nat \<times> string) option" where
  "num2 (a # b # r) = (if is_digit a \<and> is_digit b then Some (digits_val [a, b], r) else None)"
| "num2 r = None"

fun expect :: "char \<Rightarrow> string \<Rightarrow> string option" where
  "expect c (x # r) = (if x = c then Some r else None)"
| "expect c [] = None"

definition ref_date :: "string \<Rightarrow> ((nat \<times> nat \<times> nat) \<times> string) option" where
  "ref_date s =
     Option.bind (num2 s) (\<lambda>(c, r1).
     Option.bind (num2 r1) (\<lambda>(y, r2).
     Option.bind (expect (CHR ''-'') r2) (\<lambda>r3.
     Option.bind (num2 r3) (\<lambda>(m, r4).
     Option.bind (expect (CHR ''-'') r4) (\<lambda>r5.
     Option.bind (num2 r5) (\<lambda>(d, r6).
       let yy = 100 * c + y
       in if 1 \<le> yy \<and> 1 \<le> m \<and> m \<le> 12 \<and> 1 \<le> d \<and> d \<le> days_in_month yy m
          then Some ((yy, m, d), r6) else None))))))"

definition ref_fraction :: "string \<Rightarrow> (nat \<times> string) option" where
  "ref_fraction r =
     (case r of
        [] \<Rightarrow> Some (0, [])
      | c # r' \<Rightarrow>
          if c = CHR ''.'' then
            (let ds = takeWhile is_digit r'
             in if length ds = 3 then Some (digits_val ds * 1000, dropWhile is_digit r')
                else if length ds = 6 then Some (digits_val ds, dropWhile is_digit r')
                else None)
          else Some (0, r))"

definition ref_seconds :: "string \<Rightarrow> ((nat \<times> nat) \<times> string) option" where
  "ref_seconds r =
     (case r of
        [] \<Rightarrow> Some ((0, 0), [])
      | c # r' \<Rightarrow>
          if c = CHR '':'' then
            Option.bind (num2 r') (\<lambda>(ss, r1).
            Option.bind (ref_fraction r1) (\<lambda>(us, r2).
              if ss < 60 then Some ((ss, us), r2) else None))
          else Some ((0, 0), r))"

definition ref_tz :: "string \<Rightarrow> int option option" where
  "ref_tz r =
     (case r of
        [] \<Rightarrow> Some None
      | c # r' \<Rightarrow>
          if c = CHR ''+'' \<or> c = CHR ''-'' then
            Option.bind (num2 r') (\<lambda>(hh, r1).
            Option.bind (expect (CHR '':'') r1) (\<lambda>r2.
            Option.bind (num2 r2) (\<lambda>(mm, r3).
              if r3 = [] \<and> hh < 24 \<and> mm < 60
              then Some (Some ((if c = CHR ''-'' then - 1 else 1)
                               * (int hh * 3600000000 + int mm * 60000000)))
              else None)))
          else None)"

definition ref_fromisoformat :: "string \<Rightarrow> datetime option" where
  "ref_fromisoformat s =
     Option.bind (ref_date s) (\<lambda>((y, m, d), r).
       case r of
         [] \<Rightarrow> Some \<lparr>year = y, month = m, day = d, hour = 0, minute = 0, second = 0,
                      microsecond = 0, tzinfo = None\<rparr>
       | sep # r0 \<Rightarrow>
           Option.bind (num2 r0) (\<lambda>(hh, r1).
           Option.bind (expect (CHR '':'') r1) (\<lambda>r2.
           Option.bind (num2 r2) (\<lambda>(mm, r3).
           Option.bind (ref_seconds r3) (\<lambda>((ss, us), r4).
           Option.bind (ref_tz r4) (\<lambda>tz.
             if hh < 24 \<and> mm < 60
             then Some \<lparr>year = y, month = m, day = d, hour = hh, minute = mm, second = ss,
                        microsecond = us, tzinfo = tz\<rparr>
             else None))))))"

definition field12 :: "string \<Rightarrow> (nat \<times> string) option" where
  "field12 s =
     (let ds = takeWhile is_digit s
      in if length ds = 1 \<or> length ds = 2 then Some (digits_val ds, dropWhile is_digit s)
         else None)"

definition ref_clock :: "string \<Rightarrow> ((nat \<times> nat \<times> nat) \<times> string) option" where
  "ref_clock s =
     Option.bind (field12 s) (\<lambda>(hh, r1).
     Option.bind (expect (CHR '':'') r1) (\<lambda>r2.
     Option.bind (field12 r2) (\<lambda>(mm, r3).
     Option.bind (expect (CHR '':'') r3) (\<lambda>r4.
     Option.bind (field12 r4) (\<lambda>(ss, r5).
       if hh < 24 \<and> mm < 60 \<and> ss < 60 then Some ((hh, mm, ss), r5) else None)))))"

definition ref_strptime :: "string \<Rightarrow> string \<Rightarrow> datetime option" where
  "ref_strptime s fmt =
     (if fmt = ''%H:%M:%S.%f'' then
        Option.bind (ref_clock s) (\<lambda>((hh, mm, ss), r).
        Option.bind (expect (CHR ''.'') r) (\<lambda>ds.
          if all_digits ds \<and> length ds \<le> 6
          then Some \<lparr>year = 1900, month = 1, day = 1, hour = hh, minute = mm, second = ss,
                     microsecond = digits_val (ds @ replicate (6 - length ds) (CHR ''0'')),
                     tzinfo = None\<rparr>
          else None))
      else if fmt = ''%H:%M:%S'' then
        Option.bind (ref_clock s) (\<lambda>((hh, mm, ss), r).
          if r = []
          then Some \<lparr>year = 1900, month = 1, day = 1, hour = hh, minute = mm, second = ss,
                     microsecond = 0, tzinfo = None\<rparr>
          else None)
      else None)"

fun frac_digits :: "nat \<Rightarrow> real \<Rightarrow> string" where
  "frac_digits 0 x = []"
| "frac_digits (Suc k) x =
     (if x = 0 then []
      else (let d = nat \<lfloor>x * 10\<rfloor> in digit_char d # frac_digits k (x * 10 - real d)))"

definition ref_float_str :: "pyfloat \<Rightarrow> string" where
  "ref_float_str v =
     (case v of
        NaN \<Rightarrow> ''nan''
      | Fin x \<Rightarrow>
          (let a = \<bar>x\<bar>; f = frac_digits 17 (a - of_int \<lfloor>a\<rfloor>)
           in (if x < 0 then ''-'' else '''') @ dec (nat \<lfloor>a\<rfloor>) @ ''.''
              @ (if f = [] then ''0'' else f)))"

fun insert_lt :: "TelemetryEntry \<Rightarrow> TelemetryEntry list \<Rightarrow> TelemetryEntry list" where
  \<comment> \<open>the sorted part is held last element first\<close>
  "insert_lt x [] = [x]"
| "insert_lt x (y # ys) =
     (if py_lt (offset_seconds x) (offset_seconds y) then y # insert_lt x ys else x # y # ys)"

definition ref_sort_nan :: "TelemetryEntry list \<Rightarrow> TelemetryEntry list" where
  "ref_sort_nan xs = rev (foldl (\<lambda>acc x. insert_lt x acc) [] xs)"

definition pyref :: pylib where
  "pyref = \<lparr>float_of_str = ref_float, fromisoformat = ref_fromisoformat,
            strptime = ref_strptime, float_str = ref_float_str, sort_nan = ref_sort_nan\<rparr>"

section \<open>Notions of the specification\<close>

text \<open>
  The instant of a datetime on the scale on which \<open>datetime\<close> compares and subtracts
  values of the same kind: the UTC instant of an aware value, the wall-clock reading of
  a naive one.
\<close>

definition aware :: "datetime \<Rightarrow> bool" where
  "aware t = (tzinfo t \<noteq> None)"

definition instant :: "datetime \<Rightarrow> int" where
  "instant t = wall t - (case tzinfo t of None \<Rightarrow> 0 | Some x \<Rightarrow> x)"

text \<open>
  What the numeric branch (lines 109 to 119) and the absolute branch (lines 97 to 107)
  make of one parsed record.
\<close>

definition numeric_entry :: "pylib \<Rightarrow> timestamp \<times> record_dict \<Rightarrow> TelemetryEntry \<Rightarrow> bool" where
  "numeric_entry L p e =
     (\<exists>v. fst p = Numeric v \<and> offset_seconds e = v \<and> display_timestamp e = format_f 3 v @ ''s''
        \<and> coerce_optional_float L (snd p ''speed'') = Inr (speed e)
        \<and> coerce_optional_float L (snd p ''latitude'') = Inr (latitude e)
        \<and> coerce_optional_float L (snd p ''longitude'') = Inr (longitude e))"

definition absolute_entry :: "pylib \<Rightarrow> datetime \<Rightarrow> datetime \<times> record_dict \<Rightarrow> TelemetryEntry \<Rightarrow> bool" where
  "absolute_entry L start p e =
     (offset_seconds e = Fin (real_of_int (instant (fst p) - instant start) / 1000000)
      \<and> display_timestamp e = isoformat (fst p)
      \<and> coerce_optional_float L (snd p ''speed'') = Inr (speed e)
      \<and> coerce_optional_float L (snd p ''latitude'') = Inr (latitude e)
      \<and> coerce_optional_float L (snd p ''longitude'') = Inr (longitude e))"





section \<open>Evaluation\<close>

lemma replicate_numeral [simp]: "replicate (numeral k) x = x # replicate (pred_numeral k) x"
  by (simp add: numeral_eq_Suc)

lemmas num_defs = py_divmod_def fmt_int_def zpad_def dec.simps digit_char_def py_round_def
  format_f_def max0_def py_lt_def py_le_def py_add_def

lemmas str_defs = py_strip_def is_space_def endswith_def iso_candidate_def

lemmas ref_defs = pyref_def ref_float_def is_nan_word_def split_sign_def is_digit_def digits_val_def
  all_digits_def ref_exponent_def ref_date_def ref_fraction_def ref_seconds_def ref_tz_def
  ref_fromisoformat_def field12_def ref_clock_def ref_strptime_def days_in_month_def is_leap_def

lemmas dt_defs = wall_def ymd2ord_def days_before_year_def days_before_month_def
  dt_lt_def dt_sub_def total_seconds_def isoformat_def format_offset_def py_min_def

lemmas norm_defs = normalize_entries_def build_offsets_def make_entry_def
  coerce_optional_float_def numeric_of_def datetime_of_def is_datetime_def float_of_int_def
  list_sort_def

section \<open>Time codes\<close>

lemma srt_timestamp_zero: "srt_timestamp (Fin 0) = ''00:00:00,000''"
  by (simp add: srt_timestamp_def num_defs)

lemma srt_timestamp_3661: "srt_timestamp (Fin 3661.2005) = ''01:01:01,200''"
  by (simp add: srt_timestamp_def num_defs)

lemma srt_timestamp_clamp: "s \<le> 0 \<Longrightarrow> srt_timestamp (Fin s) = ''00:00:00,000''"
  by (simp add: srt_timestamp_def num_defs)

text \<open>
  C7. The time code is to be \<open>HH:MM:SS,mmm\<close> with exactly three digits of milliseconds.
  At 0.9996 seconds the fraction rounds to 1000 milliseconds; the code prints the four
  digits and does not carry into the seconds.
\<close>

theorem srt_timestamp_four_digit_millis: "srt_timestamp (Fin 0.9996) = ''00:00:00,1000''"
  by (simp add: srt_timestamp_def num_defs)

section \<open>Optional coercion\<close>

lemma coerce_optional_float_absent:
  "coerce_optional_float L None = Inr None" "coerce_optional_float L (Some JNull) = Inr None"
  by (simp_all add: coerce_optional_float_def)

lemma coerce_optional_float_raises:
  assumes "coerce_optional_float L v = Inl e"
  shows "e = OverflowError \<and> (\<exists>n. v = Some (JInt n) \<and> 2 ^ 1024 - 2 ^ 970 \<le> \<bar>n\<bar>)"
proof (cases v)
  case None
  with assms show ?thesis by (simp add: coerce_optional_float_def)
next
  case (Some j)
  with assms show ?thesis
    by (cases j)
      (auto simp: coerce_optional_float_def float_of_int_def
            split: if_splits option.splits sum.splits error.splits)
qed

text \<open>
  C9. The coercion is to return absent for every value it cannot convert, and never to
  raise. For the integer \<open>10 ^ 400\<close> (a JSON integer literal of 401 digits) \<open>float\<close>
  raises OverflowError, which the \<open>except (TypeError, ValueError)\<close> clause lets through.
\<close>

theorem coerce_optional_float_overflow:
  "coerce_optional_float L (Some (JInt (10 ^ 400))) = Inl OverflowError"
  by (simp add: coerce_optional_float_def float_of_int_def)

section \<open>Classification of a timestamp\<close>

lemma iso_candidate_Z: "iso_candidate (v @ ''Z'') = v @ ''+00:00''"
  by (simp add: iso_candidate_def endswith_def)

lemma iso_candidate_other: "\<not> endswith v (CHR ''Z'') \<Longrightarrow> iso_candidate v = v"
  by (simp add: iso_candidate_def)

text \<open>
  C1 (as amended). The order of the rules of \<open>parse_timestamp\<close>, for every runtime: a
  float is Numeric, and so is an int within the range of a double; a string is trimmed,
  and the first of \<open>float\<close>, \<open>fromisoformat\<close> (after the rewriting of a final Z),
  \<open>strptime\<close> with the fraction and \<open>strptime\<close> without it that accepts the trimmed
  string decides; when none does, the error carries the trimmed string. So a string that
  \<open>float\<close> accepts, like 1700000000, is Numeric whatever the later rules would say.
\<close>

theorem parse_timestamp_first_match:
  "parse_timestamp L (JFloat x) = Inr (Numeric x)
   \<and> (\<bar>n\<bar> < 2 ^ 1024 - 2 ^ 970 \<longrightarrow> parse_timestamp L (JInt n) = Inr (Numeric (Fin (of_int n))))
   \<and> (float_of_str L (py_strip s) = Some x \<longrightarrow> parse_timestamp L (JStr s) = Inr (Numeric x))
   \<and> (float_of_str L (py_strip s) = None
        \<and> fromisoformat L (iso_candidate (py_strip s)) = Some t
      \<longrightarrow> parse_timestamp L (JStr s) = Inr (Absolute t))
   \<and> (float_of_str L (py_strip s) = None
        \<and> fromisoformat L (iso_candidate (py_strip s)) = None
        \<and> strptime L (py_strip s) ''%H:%M:%S.%f'' = Some t
      \<longrightarrow> parse_timestamp L (JStr s) = Inr (Absolute t))
   \<and> (float_of_str L (py_strip s) = None
        \<and> fromisoformat L (iso_candidate (py_strip s)) = None
        \<and> strptime L (py_strip s) ''%H:%M:%S.%f'' = None
        \<and> strptime L (py_strip s) ''%H:%M:%S'' = Some t
      \<longrightarrow> parse_timestamp L (JStr s) = Inr (Absolute t))
   \<and> (float_of_str L (py_strip s) = None
        \<and> fromisoformat L (iso_candidate (py_strip s)) = None
        \<and> strptime L (py_strip s) ''%H:%M:%S.%f'' = None
        \<and> strptime L (py_strip s) ''%H:%M:%S'' = None
      \<longrightarrow> parse_timestamp L (JStr s) = Inl (UnsupportedTimestampFormat (py_strip s)))"
  by (simp add: float_of_int_def)

theorem parse_timestamp_first_match_witness:
  "parse_timestamp pyref (JInt 5) = Inr (Numeric (Fin 5))
   \<and> parse_timestamp pyref (JStr ''1700000000'') = Inr (Numeric (Fin 1700000000))
   \<and> parse_timestamp pyref (JStr ''2024-01-01T00:00:10Z'') =
       Inr (Absolute \<lparr>year = 2024, month = 1, day = 1, hour = 0, minute = 0, second = 10,
                       microsecond = 0, tzinfo = Some 0\<rparr>)
   \<and> parse_timestamp pyref (JStr ''12:34:56.5'') =
       Inr (Absolute \<lparr>year = 1900, month = 1, day = 1, hour = 12, minute = 34, second = 56,
                       microsecond = 500000, tzinfo = None\<rparr>)
   \<and> parse_timestamp pyref (JStr ''12:34:56'') =
       Inr (Absolute \<lparr>year = 1900, month = 1, day = 1, hour = 12, minute = 34, second = 56,
                       microsecond = 0, tzinfo = None\<rparr>)
   \<and> parse_timestamp pyref (JStr ''not-a-time'') = Inl (UnsupportedTimestampFormat ''not-a-time'')"
proof -
  have n: "\<bar>5::int\<bar> < 2 ^ 1024 - 2 ^ 970" by simp
  have a: "float_of_str pyref (py_strip ''1700000000'') = Some (Fin 1700000000)"
    by (simp add: str_defs ref_defs)
  have b: "float_of_str pyref (py_strip ''2024-01-01T00:00:10Z'') = None
      \<and> fromisoformat pyref (iso_candidate (py_strip ''2024-01-01T00:00:10Z'')) =
        Some \<lparr>year = 2024, month = 1, day = 1, hour = 0, minute = 0, second = 10,
                       microsecond = 0, tzinfo = Some 0\<rparr>"
    by (simp add: str_defs ref_defs)
  have c: "float_of_str pyref (py_strip ''12:34:56.5'') = None
      \<and> fromisoformat pyref (iso_candidate (py_strip ''12:34:56.5'')) = None
      \<and> strptime pyref (py_strip ''12:34:56.5'') ''%H:%M:%S.%f'' =
         Some \<lparr>year = 1900, month = 1, day = 1, hour = 12, minute = 34, second = 56,
                       microsecond = 500000, tzinfo = None\<rparr>"
    by (simp add: str_defs ref_defs)
  have d: "float_of_str pyref (py_strip ''12:34:56'') = None
      \<and> fromisoformat pyref (iso_candidate (py_strip ''12:34:56'')) = None
      \<and> strptime pyref (py_strip ''12:34:56'') ''%H:%M:%S.%f'' = None
      \<and> strptime pyref (py_strip ''12:34:56'') ''%H:%M:%S'' =
         Some \<lparr>year = 1900, month = 1, day = 1, hour = 12, minute = 34, second = 56,
                       microsecond = 0, tzinfo = None\<rparr>"
    by (simp add: str_defs ref_defs)
  have e: "float_of_str pyref (py_strip ''not-a-time'') = None
      \<and> fromisoformat pyref (iso_candidate (py_strip ''not-a-time'')) = None
      \<and> strptime pyref (py_strip ''not-a-time'') ''%H:%M:%S.%f'' = None
      \<and> strptime pyref (py_strip ''not-a-time'') ''%H:%M:%S'' = None"
    by (simp add: str_defs ref_defs)
  have e': "py_strip ''not-a-time'' = ''not-a-time''"
    by (simp add: str_defs)
  note T = parse_timestamp_first_match
  have 1: "parse_timestamp pyref (JInt 5) = Inr (Numeric (Fin 5))"
    using T [where L = pyref and n = 5] n by simp
  have 2: "parse_timestamp pyref (JStr ''1700000000'') = Inr (Numeric (Fin 1700000000))"
    using T [where L = pyref and s = "''1700000000''" and x = "Fin 1700000000"] a by blast
  have 3: "parse_timestamp pyref (JStr ''2024-01-01T00:00:10Z'') =
       Inr (Absolute \<lparr>year = 2024, month = 1, day = 1, hour = 0, minute = 0, second = 10,
                       microsecond = 0, tzinfo = Some 0\<rparr>)"
    using T [where L = pyref and s = "''2024-01-01T00:00:10Z''"] b by blast
  have 4: "parse_timestamp pyref (JStr ''12:34:56.5'') =
       Inr (Absolute \<lparr>year = 1900, month = 1, day = 1, hour = 12, minute = 34, second = 56,
                       microsecond = 500000, tzinfo = None\<rparr>)"
    using T [where L = pyref and s = "''12:34:56.5''"] c by blast
  have 5: "parse_timestamp pyref (JStr ''12:34:56'') =
       Inr (Absolute \<lparr>year = 1900, month = 1, day = 1, hour = 12, minute = 34, second = 56,
                       microsecond = 0, tzinfo = None\<rparr>)"
    using T [where L = pyref and s = "''12:34:56''"] d by blast
  have 6: "parse_timestamp pyref (JStr ''not-a-time'') =
       Inl (UnsupportedTimestampFormat (py_strip ''not-a-time''))"
    using T [where L = pyref and s = "''not-a-time''"] e by blast
  show ?thesis
    using 1 2 3 4 5 6 unfolding e' by blast
qed

text \<open>
  C1 as stated fails: the error does not carry the raw value but the trimmed one.
\<close>

theorem parse_timestamp_trimmed_value:
  "parse_timestamp pyref (JStr '' not-a-time '') = Inl (UnsupportedTimestampFormat ''not-a-time'')
   \<and> parse_timestamp pyref (JStr '' not-a-time '') \<noteq> Inl (UnsupportedTimestampFormat '' not-a-time '')"
  by (simp add: str_defs ref_defs)

section \<open>Normalisation of a batch\<close>

lemma parse_entries_length: "parse_entries L recs = Inr parsed \<Longrightarrow> length parsed = length recs"
  by (induction recs arbitrary: parsed) (auto split: option.splits sum.splits)

lemma parse_entries_snd: "parse_entries L recs = Inr parsed \<Longrightarrow> map snd parsed = recs"
  by (induction recs arbitrary: parsed) (auto split: option.splits sum.splits)

lemma datetime_entries_None:
  "datetime_entries parsed = None \<longleftrightarrow> (\<exists>x d. (Numeric x, d) \<in> set parsed)"
proof (induction parsed)
  case Nil
  show ?case by simp
next
  case (Cons p ps)
  obtain ts d where p: "p = (ts, d)" by (cases p)
  show ?case
    using Cons by (cases ts) (auto simp: p datetime_of_def)
qed

lemma datetime_entries_Some:
  "datetime_entries parsed = Some dts \<Longrightarrow> parsed = map (\<lambda>(t, d). (Absolute t, d)) dts"
proof (induction parsed arbitrary: dts)
  case Nil
  then show ?case by simp
next
  case (Cons p ps)
  obtain ts d where p: "p = (ts, d)" by (cases p)
  show ?case
    using Cons by (cases ts) (auto simp: p datetime_of_def)
qed

lemma has_datetimes_iff:
  "list_ex (\<lambda>p. is_datetime (fst p)) parsed \<longleftrightarrow> (\<exists>t d. (Absolute t, d) \<in> set parsed)"
proof
  assume "list_ex (\<lambda>p. is_datetime (fst p)) parsed"
  then obtain ts d where "(ts, d) \<in> set parsed" "is_datetime ts"
    by (auto simp: list_ex_iff)
  then show "\<exists>t d. (Absolute t, d) \<in> set parsed"
    by (auto simp: is_datetime_def split: timestamp.splits)
next
  assume "\<exists>t d. (Absolute t, d) \<in> set parsed"
  then show "list_ex (\<lambda>p. is_datetime (fst p)) parsed"
    by (force simp: list_ex_iff is_datetime_def)
qed

text \<open>
  C5. When every timestamp of the batch parses and the parsed values hold an Absolute
  one and a Numeric one, \<open>normalize_entries\<close> raises the MixedTimestampFormats error:
  there are no entries.
\<close>

theorem mixed_formats_rejected:
  assumes "parse_entries L recs = Inr parsed"
    and "(Absolute t, d) \<in> set parsed"
    and "(Numeric x, d') \<in> set parsed"
  shows "normalize_entries L recs = Inl MixedTimestampFormats"
proof -
  have "list_ex (\<lambda>p. is_datetime (fst p)) parsed"
    using assms(2) has_datetimes_iff by blast
  moreover have "datetime_entries parsed = None"
    using assms(3) datetime_entries_None by blast
  ultimately show ?thesis
    using assms(1) by (simp add: normalize_entries_def build_offsets_def)
qed

lemma build_offsets_length_num:
  "numeric_offsets L parsed = Inr es \<Longrightarrow> length es = length parsed"
  by (induction L parsed arbitrary: es rule: numeric_offsets.induct)
     (auto split: sum.splits)

lemma build_offsets_length_abs:
  "absolute_offsets L st dts = Inr es \<Longrightarrow> length es = length dts"
  by (induction L st dts arbitrary: es rule: absolute_offsets.induct)
     (auto split: sum.splits)

lemma datetime_entries_length:
  "datetime_entries parsed = Some dts \<Longrightarrow> length dts = length parsed"
  by (drule datetime_entries_Some) simp

lemma build_offsets_length:
  assumes "build_offsets L recs = Inr es"
  shows "length es = length recs"
  using assms
  by (auto simp: build_offsets_def split: sum.splits option.splits if_splits
           dest!: parse_entries_length build_offsets_length_num build_offsets_length_abs
                  datetime_entries_length)

lemma list_sort_finite:
  "NaN \<notin> offset_seconds ` set es \<Longrightarrow> list_sort L es = sort_key (real_of \<circ> offset_seconds) es"
  by (simp add: list_sort_def)

lemma py_le_real_of: "a \<noteq> NaN \<Longrightarrow> b \<noteq> NaN \<Longrightarrow> py_le a b = (real_of a \<le> real_of b)"
  by (cases a; cases b) (simp_all add: py_le_def)

lemma real_of_eq: "a \<noteq> NaN \<Longrightarrow> b \<noteq> NaN \<Longrightarrow> (real_of a = real_of b) = (a = b)"
  by (cases a; cases b) simp_all

text \<open>
  C2 (as amended). When the entries built from a batch hold no NaN offset,
  \<open>normalize_entries\<close> returns a list that is sorted non-decreasing by \<open>offset_seconds\<close>, is
  a permutation of the entries built from the records (one entry for each record, in input
  order before the sort), and keeps the input order among the entries of equal offset.
\<close>

theorem normalize_entries_sorted_stable:
  assumes "build_offsets L recs = Inr es"
    and "NaN \<notin> offset_seconds ` set es"
  shows "\<exists>out. normalize_entries L recs = Inr out
           \<and> length es = length recs
           \<and> sorted_wrt (\<lambda>a b. py_le (offset_seconds a) (offset_seconds b)) out
           \<and> mset out = mset es
           \<and> (\<forall>k. filter (\<lambda>e. offset_seconds e = k) out = filter (\<lambda>e. offset_seconds e = k) es)"
proof -
  let ?f = "real_of \<circ> offset_seconds"
  let ?out = "sort_key ?f es"
  have out: "normalize_entries L recs = Inr ?out"
    using assms by (simp add: normalize_entries_def list_sort_finite)
  have fin: "\<forall>e \<in> set es. offset_seconds e \<noteq> NaN"
    using assms(2) by force
  have set_out: "set ?out = set es"
    by simp
  have "sorted_wrt (\<lambda>a b. ?f a \<le> ?f b) ?out"
    using sorted_sort_key [of ?f es] by (simp only: sorted_map)
  then have srt: "sorted_wrt (\<lambda>a b. py_le (offset_seconds a) (offset_seconds b)) ?out"
  proof (rule sorted_wrt_mono_rel [rotated])
    fix a b
    assume "a \<in> set ?out" "b \<in> set ?out" "?f a \<le> ?f b"
    then show "py_le (offset_seconds a) (offset_seconds b)"
      using fin by (simp add: py_le_real_of)
  qed
  have stab: "filter (\<lambda>e. offset_seconds e = k) ?out = filter (\<lambda>e. offset_seconds e = k) es" for k
  proof (cases k)
    case NaN
    then show ?thesis
      using fin set_out by (simp add: filter_empty_conv)
  next
    case (Fin x)
    have "filter (\<lambda>e. offset_seconds e = k) ?out = filter (\<lambda>e. ?f e = x) ?out"
      using fin set_out by (intro filter_cong) (auto simp: Fin real_of_eq [of _ "Fin x", simplified])
    also have "\<dots> = filter (\<lambda>e. ?f e = x) es"
      by (rule sort_key_stable)
    also have "\<dots> = filter (\<lambda>e. offset_seconds e = k) es"
      using fin by (intro filter_cong) (auto simp: Fin real_of_eq [of _ "Fin x", simplified])
    finally show ?thesis .
  qed
  show ?thesis
    using out srt stab build_offsets_length [OF assms(1)] by auto
qed

lemma parse_entries_missing:
  assumes "r \<in> set recs" and "r ''timestamp'' = None"
  shows "\<exists>e. parse_entries L recs = Inl e"
  using assms
  by (induction recs) (auto split: option.splits sum.splits)

lemma parse_entries_first_missing:
  assumes "\<forall>p \<in> set pre. \<exists>v ts. p ''timestamp'' = Some v \<and> parse_timestamp L v = Inr ts"
    and "r ''timestamp'' = None"
  shows "parse_entries L (pre @ r # post) = Inl MissingTimestampField"
  using assms
  by (induction pre) (auto split: option.splits sum.splits)

lemma parse_entries_first_unparseable:
  assumes "\<forall>p \<in> set pre. \<exists>v ts. p ''timestamp'' = Some v \<and> parse_timestamp L v = Inr ts"
    and "q ''timestamp'' = Some v" and "parse_timestamp L v = Inl e"
  shows "parse_entries L (pre @ q # post) = Inl e"
  using assms
  by (induction pre) (auto split: option.splits sum.splits)

text \<open>
  C6 (as amended). A batch with a record that lacks the key \<open>timestamp\<close> is aborted: the
  result is an error, never a list. The loop takes the records in order: the error is
  MissingTimestampField when every record before the first record without the key has a
  timestamp that parses, and it is the parse error of the earliest record whose timestamp
  does not parse when that record comes first.
\<close>

theorem missing_timestamp_aborts:
  "(r \<in> set recs \<and> r ''timestamp'' = None \<longrightarrow> (\<exists>e. normalize_entries L recs = Inl e))
   \<and> ((\<forall>p \<in> set pre. \<exists>v ts. p ''timestamp'' = Some v \<and> parse_timestamp L v = Inr ts)
        \<and> r ''timestamp'' = None
      \<longrightarrow> normalize_entries L (pre @ r # post) = Inl MissingTimestampField)
   \<and> ((\<forall>p \<in> set pre. \<exists>v ts. p ''timestamp'' = Some v \<and> parse_timestamp L v = Inr ts)
        \<and> q ''timestamp'' = Some v \<and> parse_timestamp L v = Inl e
      \<longrightarrow> normalize_entries L (pre @ q # post) = Inl e)"
proof (intro conjI impI)
  assume "r \<in> set recs \<and> r ''timestamp'' = None"
  then obtain e where "parse_entries L recs = Inl e"
    using parse_entries_missing by blast
  then show "\<exists>e. normalize_entries L recs = Inl e"
    by (simp add: normalize_entries_def build_offsets_def)
next
  assume "(\<forall>p \<in> set pre. \<exists>v ts. p ''timestamp'' = Some v \<and> parse_timestamp L v = Inr ts)
        \<and> r ''timestamp'' = None"
  then have "parse_entries L (pre @ r # post) = Inl MissingTimestampField"
    using parse_entries_first_missing by blast
  then show "normalize_entries L (pre @ r # post) = Inl MissingTimestampField"
    by (simp add: normalize_entries_def build_offsets_def)
next
  assume "(\<forall>p \<in> set pre. \<exists>v ts. p ''timestamp'' = Some v \<and> parse_timestamp L v = Inr ts)
        \<and> q ''timestamp'' = Some v \<and> parse_timestamp L v = Inl e"
  then have "parse_entries L (pre @ q # post) = Inl e"
    using parse_entries_first_unparseable by blast
  then show "normalize_entries L (pre @ q # post) = Inl e"
    by (simp add: normalize_entries_def build_offsets_def)
qed

lemma dt_lt_uniform: "aware a = aware b \<Longrightarrow> dt_lt a b = Inr (instant a < instant b)"
  by (auto simp: aware_def instant_def dt_lt_def split: option.splits)

lemma dt_lt_mixed: "aware a \<noteq> aware b \<Longrightarrow> dt_lt a b = Inl TypeError"
  by (auto simp: aware_def dt_lt_def split: option.splits)

lemma dt_sub_uniform: "aware a = aware b \<Longrightarrow> dt_sub a b = Inr (instant a - instant b)"
  by (auto simp: aware_def instant_def dt_sub_def split: option.splits)

lemma min_from_uniform:
  assumes "\<forall>t \<in> set (best # xs). aware t = a"
  shows "\<exists>m. min_from best xs = Inr m \<and> m \<in> set (best # xs)
             \<and> (\<forall>t \<in> set (best # xs). instant m \<le> instant t)"
  using assms
proof (induction xs arbitrary: best)
  case Nil
  then show ?case by simp
next
  case (Cons x xs)
  have lt: "dt_lt x best = Inr (instant x < instant best)"
    using Cons.prems by (intro dt_lt_uniform) simp
  let ?b = "if instant x < instant best then x else best"
  have "\<forall>t \<in> set (?b # xs). aware t = a"
    using Cons.prems by simp
  from Cons.IH [OF this] obtain m where m: "min_from ?b xs = Inr m" "m \<in> set (?b # xs)"
    "\<forall>t \<in> set (?b # xs). instant m \<le> instant t"
    by blast
  have "min_from best (x # xs) = Inr m"
    using lt m(1) by simp
  moreover have "m \<in> set (best # x # xs)"
    using m(2) by (auto split: if_splits)
  moreover have "\<forall>t \<in> set (best # x # xs). instant m \<le> instant t"
    using m(3) by (auto split: if_splits)
  ultimately show ?case by blast
qed

lemma min_from_mixed:
  assumes "\<exists>t \<in> set xs. aware t \<noteq> aware best"
  shows "min_from best xs = Inl TypeError"
  using assms
proof (induction xs arbitrary: best)
  case Nil
  then show ?case by simp
next
  case (Cons x xs)
  show ?case
  proof (cases "aware x = aware best")
    case False
    then show ?thesis by (simp add: dt_lt_mixed)
  next
    case True
    then have lt: "dt_lt x best = Inr (instant x < instant best)"
      by (rule dt_lt_uniform)
    let ?b = "if instant x < instant best then x else best"
    have "\<exists>t \<in> set xs. aware t \<noteq> aware ?b"
      using Cons.prems True by auto
    from Cons.IH [OF this] show ?thesis
      using lt by simp
  qed
qed

lemma make_entry_cases:
  "make_entry L off disp data = Inl e \<Longrightarrow> e = OverflowError"
  "make_entry L off disp data = Inr entry \<Longrightarrow>
     offset_seconds entry = off \<and> display_timestamp entry = disp
     \<and> coerce_optional_float L (data ''speed'') = Inr (speed entry)
     \<and> coerce_optional_float L (data ''latitude'') = Inr (latitude entry)
     \<and> coerce_optional_float L (data ''longitude'') = Inr (longitude entry)"
  by (auto simp: make_entry_def split: sum.splits dest: coerce_optional_float_raises)

lemma numeric_offsets_cases:
  assumes "\<forall>p \<in> set parsed. \<exists>v. fst p = Numeric v"
  shows "numeric_offsets L parsed = Inl OverflowError
         \<or> (\<exists>es. numeric_offsets L parsed = Inr es \<and> list_all2 (numeric_entry L) parsed es)"
  using assms
proof (induction L parsed rule: numeric_offsets.induct)
  case (1 L)
  show ?case by simp
next
  case (2 L ts data rest)
  from "2.prems" obtain v where v: "ts = Numeric v" by auto
  show ?case
  proof (cases "make_entry L v (format_f 3 v @ ''s'') data")
    case (Inl e)
    then show ?thesis
      using make_entry_cases(1) [OF Inl] by (simp add: v numeric_of_def)
  next
    case (Inr entry)
    have ih: "numeric_offsets L rest = Inl OverflowError
         \<or> (\<exists>es. numeric_offsets L rest = Inr es \<and> list_all2 (numeric_entry L) rest es)"
      using "2.IH" [of v entry] "2.prems" Inr by (simp add: v numeric_of_def)
    have "numeric_entry L (ts, data) entry"
      using make_entry_cases(2) [OF Inr] by (simp add: numeric_entry_def v)
    then show ?thesis
      using ih Inr by (auto simp: v numeric_of_def)
  qed
qed

text \<open>
  C4. When every timestamp of the batch parses to a Numeric value, either a coercion of
  an auxiliary field aborts the batch with OverflowError (see C9), or
  \<open>normalize_entries\<close> returns what \<open>list.sort\<close> makes of one entry for each record
  (their stable sort when no offset is NaN), whose \<open>offset_seconds\<close> is the parsed value
  itself (nothing is subtracted) and whose \<open>display_timestamp\<close> is that value with three
  decimals followed by \<open>s\<close>.
\<close>

theorem numeric_mode_offsets:
  assumes "parse_entries L recs = Inr parsed"
    and "\<forall>p \<in> set parsed. \<exists>v. fst p = Numeric v"
  shows "normalize_entries L recs = Inl OverflowError
         \<or> (\<exists>es. build_offsets L recs = Inr es
                \<and> normalize_entries L recs = Inr (list_sort L es)
                \<and> (NaN \<notin> offset_seconds ` set es
                     \<longrightarrow> list_sort L es = sort_key (real_of \<circ> offset_seconds) es)
                \<and> list_all2 (numeric_entry L) parsed es)"
proof -
  have "\<not> list_ex (\<lambda>p. is_datetime (fst p)) parsed"
    using assms(2) by (auto simp: list_ex_iff is_datetime_def)
  then have "build_offsets L recs = numeric_offsets L parsed"
    using assms(1) by (simp add: build_offsets_def)
  then show ?thesis
    using numeric_offsets_cases [OF assms(2), of L]
    by (auto simp: normalize_entries_def list_sort_finite)
qed

lemma absolute_offsets_cases:
  assumes "\<forall>p \<in> set dts. aware (fst p) = aware start"
  shows "absolute_offsets L start dts = Inl OverflowError
         \<or> (\<exists>es. absolute_offsets L start dts = Inr es \<and> list_all2 (absolute_entry L start) dts es)"
  using assms
proof (induction L start dts rule: absolute_offsets.induct)
  case (1 L start)
  show ?case by simp
next
  case (2 L start ts data rest)
  have sub: "dt_sub ts start = Inr (instant ts - instant start)"
    using "2.prems" by (intro dt_sub_uniform) simp
  let ?off = "total_seconds (instant ts - instant start)"
  show ?case
  proof (cases "make_entry L ?off (isoformat ts) data")
    case (Inl e)
    then show ?thesis
      using make_entry_cases(1) [OF Inl] by (simp add: sub)
  next
    case (Inr entry)
    have ih: "absolute_offsets L start rest = Inl OverflowError
         \<or> (\<exists>es. absolute_offsets L start rest = Inr es \<and> list_all2 (absolute_entry L start) rest es)"
      using "2.IH" [OF sub Inr] "2.prems" by simp
    have "absolute_entry L start (ts, data) entry"
      using make_entry_cases(2) [OF Inr] by (simp add: absolute_entry_def total_seconds_def)
    then show ?thesis
      using ih Inr by (auto simp: sub)
  qed
qed

lemma datetime_entries_map:
  "datetime_entries (map (\<lambda>p. (Absolute (fst p), snd p)) dts) = Some dts"
  by (induction dts) (auto simp: datetime_of_def)

lemma build_offsets_absolute:
  assumes "parse_entries L recs = Inr (map (\<lambda>p. (Absolute (fst p), snd p)) (d # rest))"
  shows "build_offsets L recs =
     (case min_from (fst d) (map fst rest) of
        Inl e \<Rightarrow> Inl e
      | Inr start \<Rightarrow> absolute_offsets L start (d # rest))"
proof -
  let ?parsed = "map (\<lambda>p. (Absolute (fst p), snd p)) (d # rest)"
  have a: "list_ex (\<lambda>p. is_datetime (fst p)) ?parsed"
    by (simp add: is_datetime_def)
  have b: "datetime_entries ?parsed = Some (d # rest)"
    by (rule datetime_entries_map)
  have "build_offsets L recs =
     (case py_min (map fst (d # rest)) of
        Inl e \<Rightarrow> Inl e
      | Inr start \<Rightarrow> absolute_offsets L start (d # rest))"
    by (simp only: build_offsets_def assms sum.case a if_True b option.case)
  then show ?thesis
    by (simp add: py_min_def)
qed

text \<open>
  C3 (as amended). When every timestamp of a non-empty batch parses to an Absolute value
  and the values are all aware or all naive, either a coercion of an auxiliary field
  aborts the batch with OverflowError (see C9), or there is a least instant \<open>start\<close>
  among them and \<open>normalize_entries\<close> returns the stable sort of one entry for each record,
  whose \<open>offset_seconds\<close> is its instant minus \<open>start\<close> in seconds (a number, never NaN)
  and whose \<open>display_timestamp\<close> is its \<open>isoformat\<close>.
\<close>

theorem absolute_mode_offsets:
  assumes "parse_entries L recs = Inr (map (\<lambda>p. (Absolute (fst p), snd p)) dts)"
    and "dts \<noteq> []"
    and "\<forall>p \<in> set dts. aware (fst p) = a"
  shows "normalize_entries L recs = Inl OverflowError
         \<or> (\<exists>start es. start \<in> fst ` set dts
                \<and> (\<forall>p \<in> set dts. instant start \<le> instant (fst p))
                \<and> build_offsets L recs = Inr es
                \<and> normalize_entries L recs = Inr (sort_key (real_of \<circ> offset_seconds) es)
                \<and> list_all2 (absolute_entry L start) dts es)"
proof -
  from assms(2) obtain d rest where dts: "dts = d # rest"
    by (cases dts) auto
  have "\<forall>t \<in> set (fst d # map fst rest). aware t = a"
    using assms(3) by (simp add: dts)
  from min_from_uniform [OF this] obtain start
    where start: "min_from (fst d) (map fst rest) = Inr start"
      and mem: "start \<in> set (fst d # map fst rest)"
      and least: "\<forall>t \<in> set (fst d # map fst rest). instant start \<le> instant t"
    by blast
  have bo: "build_offsets L recs = absolute_offsets L start dts"
    using build_offsets_absolute [of L recs d rest] assms(1) start by (simp add: dts)
  have 1: "start \<in> fst ` set dts"
    using mem by (auto simp: dts)
  have 2: "\<forall>p \<in> set dts. instant start \<le> instant (fst p)"
    using least by (auto simp: dts)
  have "aware start = a"
    using 1 assms(3) by auto
  then have "\<forall>p \<in> set dts. aware (fst p) = aware start"
    using assms(3) by simp
  from absolute_offsets_cases [OF this, of L] consider
      (err) "absolute_offsets L start dts = Inl OverflowError"
    | (ok) es where "absolute_offsets L start dts = Inr es"
        "list_all2 (absolute_entry L start) dts es"
    by blast
  then show ?thesis
  proof cases
    case err
    then show ?thesis
      by (simp add: normalize_entries_def bo)
  next
    case ok
    have "offset_seconds e \<noteq> NaN" if "e \<in> set es" for e
    proof -
      from that obtain i where "i < length es" "es ! i = e"
        by (auto simp: in_set_conv_nth)
      then have "absolute_entry L start (dts ! i) e"
        using ok(2) by (auto simp: list_all2_conv_all_nth)
      then show ?thesis
        by (simp add: absolute_entry_def)
    qed
    then have "NaN \<notin> offset_seconds ` set es"
      by force
    then have "normalize_entries L recs = Inr (sort_key (real_of \<circ> offset_seconds) es)"
      by (simp add: normalize_entries_def bo ok(1) list_sort_finite)
    then show ?thesis
      using 1 2 bo ok by auto
  qed
qed

text \<open>
  C10. A batch whose timestamps all parse to Absolute values, one of them aware and one
  naive, makes \<open>normalize_entries\<close> raise TypeError (from \<open>min\<close>), an error that is none
  of the three the program raises itself. The witness is such a batch: an ISO-8601 string
  with Z and a bare clock string.
\<close>

theorem mixed_awareness_raises:
  assumes "parse_entries L recs = Inr (map (\<lambda>p. (Absolute (fst p), snd p)) dts)"
    and "p \<in> set dts" and "aware (fst p)"
    and "q \<in> set dts" and "\<not> aware (fst q)"
  shows "normalize_entries L recs = Inl TypeError"
proof -
  from assms(2) obtain d rest where dts: "dts = d # rest"
    by (cases dts) auto
  have "\<exists>t \<in> set (map fst rest). aware t \<noteq> aware (fst d)"
    using assms(2-5) by (cases "aware (fst d)") (auto simp: dts)
  then have "min_from (fst d) (map fst rest) = Inl TypeError"
    by (rule min_from_mixed)
  then show ?thesis
    using build_offsets_absolute [of L recs d rest] assms(1)
    by (simp add: dts normalize_entries_def)
qed

section \<open>Caption windows\<close>











lemma frac_digits_numeral [simp]:
  "frac_digits (numeral k) x =
     (if x = 0 then []
      else (let d = nat \<lfloor>x * 10\<rfloor>
            in digit_char d # frac_digits (pred_numeral k) (x * 10 - real d)))"
  by (simp add: numeral_eq_Suc)


text \<open>A caption with every text line; the unit and the placeholder are as in the source.\<close>

lemma build_srt_example:
  "build_srt pyref ''mph''
     [\<lparr>offset_seconds = Fin 0, display_timestamp = ''0.000s'', speed = Some (Fin 12.34),
        latitude = Some (Fin 48), longitude = None\<rparr>,
      \<lparr>offset_seconds = Fin 5, display_timestamp = ''5.000s'', speed = None,
        latitude = None, longitude = None\<rparr>] =
   ''1'' @ nl @ ''00:00:00,000 --> 00:00:05,000'' @ nl @ ''Time: 0.000s'' @ nl
   @ ''Speed: 12.3 mph'' @ nl @ ''Lat/Lon: 48.0, '' @ em_dash @ nl @ nl
   @ ''2'' @ nl @ ''00:00:05,000 --> 00:00:06,000'' @ nl @ ''Time: 5.000s'' @ nl"
  by (simp add: build_srt_def srt_lines_def caption_block_def caption_lines_def end_time_def
        srt_timestamp_def num_defs str_defs nl_def em_dash_def pyref_def ref_float_str_def)

section \<open>The examples of the specification\<close>

text \<open>A batch with a tie: the two entries at 5 seconds keep their order.\<close>

theorem normalize_entries_sorted_stable_witness:
  "normalize_entries pyref
     [[''timestamp'' \<mapsto> JFloat (Fin 5), ''speed'' \<mapsto> JInt 1],
      [''timestamp'' \<mapsto> JStr ''0.25''],
      [''timestamp'' \<mapsto> JStr ''5'', ''speed'' \<mapsto> JStr ''fast'']] =
   Inr [\<lparr>offset_seconds = Fin 0.25, display_timestamp = ''0.250s'',
          speed = None, latitude = None, longitude = None\<rparr>,
        \<lparr>offset_seconds = Fin 5, display_timestamp = ''5.000s'',
          speed = Some (Fin 1), latitude = None, longitude = None\<rparr>,
        \<lparr>offset_seconds = Fin 5, display_timestamp = ''5.000s'',
          speed = None, latitude = None, longitude = None\<rparr>]
   \<and> build_offsets pyref
     [[''timestamp'' \<mapsto> JFloat (Fin 5), ''speed'' \<mapsto> JInt 1],
      [''timestamp'' \<mapsto> JStr ''0.25''],
      [''timestamp'' \<mapsto> JStr ''5'', ''speed'' \<mapsto> JStr ''fast'']] =
   Inr [\<lparr>offset_seconds = Fin 5, display_timestamp = ''5.000s'',
          speed = Some (Fin 1), latitude = None, longitude = None\<rparr>,
        \<lparr>offset_seconds = Fin 0.25, display_timestamp = ''0.250s'',
          speed = None, latitude = None, longitude = None\<rparr>,
        \<lparr>offset_seconds = Fin 5, display_timestamp = ''5.000s'',
          speed = None, latitude = None, longitude = None\<rparr>]"
  (is "normalize_entries pyref ?B = Inr ?out \<and> build_offsets pyref ?B = Inr ?es")
proof -
  have b: "build_offsets pyref ?B = Inr ?es"
    by (simp add: norm_defs str_defs ref_defs num_defs)
  have f: "NaN \<notin> offset_seconds ` set ?es"
    by simp
  from normalize_entries_sorted_stable [OF b f] obtain out
    where out: "normalize_entries pyref ?B = Inr out"
      and ms: "mset out = mset ?es"
    by blast
  have "normalize_entries pyref ?B = Inr ?out"
    by (simp add: normalize_entries_def b list_sort_def)
  with b show ?thesis by simp
qed

text \<open>
  C2 as stated fails: \<open>float\<close> accepts the string nan, the batch is accepted, and
  \<open>list.sort\<close> finds no key less than the one before it (every comparison with NaN is
  false), so it leaves the three entries as they are: 2 comes before 1.
\<close>

theorem normalize_entries_nan_unsorted:
  "normalize_entries pyref
     [[''timestamp'' \<mapsto> JFloat (Fin 2)],
      [''timestamp'' \<mapsto> JStr ''nan''],
      [''timestamp'' \<mapsto> JFloat (Fin 1)]] =
   Inr [\<lparr>offset_seconds = Fin 2, display_timestamp = ''2.000s'',
          speed = None, latitude = None, longitude = None\<rparr>,
        \<lparr>offset_seconds = NaN, display_timestamp = ''nans'',
          speed = None, latitude = None, longitude = None\<rparr>,
        \<lparr>offset_seconds = Fin 1, display_timestamp = ''1.000s'',
          speed = None, latitude = None, longitude = None\<rparr>]
   \<and> \<not> sorted_wrt (\<lambda>a b. py_le (offset_seconds a) (offset_seconds b))
       [\<lparr>offset_seconds = Fin 2, display_timestamp = ''2.000s'',
          speed = None, latitude = None, longitude = None\<rparr>,
        \<lparr>offset_seconds = NaN, display_timestamp = ''nans'',
          speed = None, latitude = None, longitude = None\<rparr>,
        \<lparr>offset_seconds = Fin 1, display_timestamp = ''1.000s'',
          speed = None, latitude = None, longitude = None\<rparr>]"
  by (simp add: norm_defs str_defs ref_defs num_defs)

text \<open>Epoch seconds stay as they are: no zero-basing from the least value 1.25.\<close>

theorem numeric_mode_offsets_witness:
  "normalize_entries pyref
     [[''timestamp'' \<mapsto> JFloat (Fin 1700000000), ''speed'' \<mapsto> JStr ''abc''],
      [''timestamp'' \<mapsto> JStr ''1.25'', ''speed'' \<mapsto> JInt 3]] =
   Inr [\<lparr>offset_seconds = Fin 1.25, display_timestamp = ''1.250s'',
          speed = Some (Fin 3), latitude = None, longitude = None\<rparr>,
        \<lparr>offset_seconds = Fin 1700000000, display_timestamp = ''1700000000.000s'',
          speed = None, latitude = None, longitude = None\<rparr>]"
  (is "normalize_entries pyref ?B = Inr ?out")
proof -
  let ?P = "[(Numeric (Fin 1700000000), [''timestamp'' \<mapsto> JFloat (Fin 1700000000), ''speed'' \<mapsto> JStr ''abc'']),
             (Numeric (Fin 1.25), [''timestamp'' \<mapsto> JStr ''1.25'', ''speed'' \<mapsto> JInt 3])]"
  have p: "parse_entries pyref ?B = Inr ?P"
    by (simp add: str_defs ref_defs)
  have h: "\<forall>p \<in> set ?P. \<exists>v. fst p = Numeric v"
    by (auto simp only: list.set insert_iff empty_iff fst_conv)
  show ?thesis
    using numeric_mode_offsets [OF p h]
    by (simp add: norm_defs str_defs ref_defs num_defs)
qed

text \<open>
  The batch of the specification: the offsets are 10 and 0 before the sort, 0 and 10
  after it, so the second record comes first.
\<close>

theorem absolute_mode_offsets_witness:
  "build_offsets pyref
     [[''timestamp'' \<mapsto> JStr ''2024-01-01T00:00:10Z''],
      [''timestamp'' \<mapsto> JStr ''2024-01-01T00:00:00Z'']] =
   Inr [\<lparr>offset_seconds = Fin 10, display_timestamp = ''2024-01-01T00:00:10+00:00'',
          speed = None, latitude = None, longitude = None\<rparr>,
        \<lparr>offset_seconds = Fin 0, display_timestamp = ''2024-01-01T00:00:00+00:00'',
          speed = None, latitude = None, longitude = None\<rparr>]
   \<and> normalize_entries pyref
     [[''timestamp'' \<mapsto> JStr ''2024-01-01T00:00:10Z''],
      [''timestamp'' \<mapsto> JStr ''2024-01-01T00:00:00Z'']] =
   Inr [\<lparr>offset_seconds = Fin 0, display_timestamp = ''2024-01-01T00:00:00+00:00'',
          speed = None, latitude = None, longitude = None\<rparr>,
        \<lparr>offset_seconds = Fin 10, display_timestamp = ''2024-01-01T00:00:10+00:00'',
          speed = None, latitude = None, longitude = None\<rparr>]"
  (is "build_offsets pyref ?B = Inr ?es \<and> normalize_entries pyref ?B = Inr ?out")
proof -
  let ?D = "[(\<lparr>year = 2024, month = 1, day = 1, hour = 0, minute = 0, second = 10,
                microsecond = 0, tzinfo = Some 0\<rparr>,
              [''timestamp'' \<mapsto> JStr ''2024-01-01T00:00:10Z'']),
             (\<lparr>year = 2024, month = 1, day = 1, hour = 0, minute = 0, second = 0,
                microsecond = 0, tzinfo = Some 0\<rparr>,
              [''timestamp'' \<mapsto> JStr ''2024-01-01T00:00:00Z''])]"
  have p: "parse_entries pyref ?B = Inr (map (\<lambda>p. (Absolute (fst p), snd p)) ?D)"
    by (simp add: str_defs ref_defs)
  have n: "?D \<noteq> []"
    by simp
  have a: "\<forall>p \<in> set ?D. aware (fst p) = True"
    by (simp add: aware_def)
  have b: "build_offsets pyref ?B = Inr ?es"
    by (simp add: norm_defs dt_defs str_defs ref_defs num_defs)
  show ?thesis
    using absolute_mode_offsets [OF p n a] b
    by (simp add: normalize_entries_def list_sort_def)
qed

text \<open>
  C3 as stated fails: both timestamps of this batch are Absolute, one naive and one
  aware, and no offset is computed.
\<close>

theorem absolute_mode_mixed_awareness:
  "parse_entries pyref
     [[''timestamp'' \<mapsto> JStr ''00:00:05''],
      [''timestamp'' \<mapsto> JStr ''2024-01-01T00:00:10+02:00'']] =
   Inr [(Absolute \<lparr>year = 1900, month = 1, day = 1, hour = 0, minute = 0, second = 5,
                    microsecond = 0, tzinfo = None\<rparr>,
         [''timestamp'' \<mapsto> JStr ''00:00:05'']),
        (Absolute \<lparr>year = 2024, month = 1, day = 1, hour = 0, minute = 0, second = 10,
                    microsecond = 0, tzinfo = Some 7200000000\<rparr>,
         [''timestamp'' \<mapsto> JStr ''2024-01-01T00:00:10+02:00''])]
   \<and> normalize_entries pyref
     [[''timestamp'' \<mapsto> JStr ''00:00:05''],
      [''timestamp'' \<mapsto> JStr ''2024-01-01T00:00:10+02:00'']] = Inl TypeError"
  by (simp add: norm_defs dt_defs str_defs ref_defs)

text \<open>The batch of one ISO-8601 entry and one bare number.\<close>

theorem mixed_formats_rejected_witness:
  "normalize_entries pyref
     [[''timestamp'' \<mapsto> JStr ''2024-01-01T00:00:00Z''], [''timestamp'' \<mapsto> JInt 5]] =
   Inl MixedTimestampFormats"
  (is "normalize_entries pyref ?B = _")
proof -
  let ?t = "\<lparr>year = 2024, month = 1, day = 1, hour = 0, minute = 0, second = 0,
                    microsecond = 0, tzinfo = Some 0\<rparr>"
  let ?P = "[(Absolute ?t, [''timestamp'' \<mapsto> JStr ''2024-01-01T00:00:00Z'']),
             (Numeric (Fin 5), [''timestamp'' \<mapsto> JInt 5])]"
  have p: "parse_entries pyref ?B = Inr ?P"
    by (simp add: norm_defs str_defs ref_defs)
  have a: "(Absolute ?t, [''timestamp'' \<mapsto> JStr ''2024-01-01T00:00:00Z'']) \<in> set ?P"
    by simp
  have b: "(Numeric (Fin 5), [''timestamp'' \<mapsto> JInt 5]) \<in> set ?P"
    by simp
  show ?thesis
    by (rule mixed_formats_rejected [OF p a b])
qed

text \<open>
  A record without the key between two valid records, and one after a record whose
  timestamp does not parse.
\<close>

theorem missing_timestamp_aborts_witness:
  "normalize_entries pyref
     [[''timestamp'' \<mapsto> JFloat (Fin 1.5)], Map.empty, [''timestamp'' \<mapsto> JStr ''2.5'']] =
   Inl MissingTimestampField
   \<and> normalize_entries pyref
     [[''timestamp'' \<mapsto> JFloat (Fin 1.5)], [''timestamp'' \<mapsto> JStr ''soon''], Map.empty] =
   Inl (UnsupportedTimestampFormat ''soon'')"
proof -
  have h: "\<forall>p \<in> set [[''timestamp'' \<mapsto> JFloat (Fin 1.5)]].
             \<exists>v ts. p ''timestamp'' = Some v \<and> parse_timestamp pyref v = Inr ts"
    by simp
  have e: "(Map.empty :: record_dict) ''timestamp'' = None"
    by simp
  have q: "[''timestamp'' \<mapsto> JStr ''soon''] ''timestamp'' = Some (JStr ''soon'')"
    by simp
  have u: "parse_timestamp pyref (JStr ''soon'') = Inl (UnsupportedTimestampFormat ''soon'')"
    by (simp add: str_defs ref_defs)
  have 1: "normalize_entries pyref
     ([[''timestamp'' \<mapsto> JFloat (Fin 1.5)]] @ Map.empty # [[''timestamp'' \<mapsto> JStr ''2.5'']]) =
     Inl MissingTimestampField"
    using missing_timestamp_aborts
      [where L = pyref and pre = "[[''timestamp'' \<mapsto> JFloat (Fin 1.5)]]" and r = Map.empty
         and post = "[[''timestamp'' \<mapsto> JStr ''2.5'']]"] h e
    by blast
  have 2: "normalize_entries pyref
     ([[''timestamp'' \<mapsto> JFloat (Fin 1.5)]] @ [''timestamp'' \<mapsto> JStr ''soon''] # [Map.empty]) =
     Inl (UnsupportedTimestampFormat ''soon'')"
    using missing_timestamp_aborts
      [where L = pyref and pre = "[[''timestamp'' \<mapsto> JFloat (Fin 1.5)]]"
         and q = "[''timestamp'' \<mapsto> JStr ''soon'']" and v = "JStr ''soon''"
         and e = "UnsupportedTimestampFormat ''soon''" and post = "[Map.empty]"] h q u
    by blast
  show ?thesis
    using 1 2 by simp
qed

text \<open>
  C6 as stated fails: the loop checks the key and parses the timestamp record by record,
  so an unparseable timestamp before the record without the key decides the error.
\<close>

theorem missing_timestamp_after_unparseable:
  "normalize_entries pyref [[''timestamp'' \<mapsto> JStr ''not-a-time''], Map.empty] =
     Inl (UnsupportedTimestampFormat ''not-a-time'')
   \<and> normalize_entries pyref [[''timestamp'' \<mapsto> JStr ''not-a-time''], Map.empty] \<noteq>
     Inl MissingTimestampField"
  by (simp add: norm_defs str_defs ref_defs)

text \<open>An ISO-8601 string with Z and a bare clock string.\<close>

theorem mixed_awareness_raises_witness:
  "normalize_entries pyref
     [[''timestamp'' \<mapsto> JStr ''2024-01-01T00:00:00Z''],
      [''timestamp'' \<mapsto> JStr ''12:34:56'']] = Inl TypeError"
  (is "normalize_entries pyref ?B = _")
proof -
  let ?D = "[(\<lparr>year = 2024, month = 1, day = 1, hour = 0, minute = 0, second = 0,
                microsecond = 0, tzinfo = Some 0\<rparr>,
              [''timestamp'' \<mapsto> JStr ''2024-01-01T00:00:00Z'']),
             (\<lparr>year = 1900, month = 1, day = 1, hour = 12, minute = 34, second = 56,
                microsecond = 0, tzinfo = None\<rparr>,
              [''timestamp'' \<mapsto> JStr ''12:34:56''])]"
  have p: "parse_entries pyref ?B = Inr (map (\<lambda>p. (Absolute (fst p), snd p)) ?D)"
    by (simp add: str_defs ref_defs)
  have a: "?D ! 0 \<in> set ?D" "aware (fst (?D ! 0))"
    by (simp_all add: aware_def)
  have b: "?D ! 1 \<in> set ?D" "\<not> aware (fst (?D ! 1))"
    by (simp_all add: aware_def)
  show ?thesis
    by (rule mixed_awareness_raises [OF p a b])
qed

end
